theory Spec2Isabelle
  imports
    Complex_Main
    "HOL-Library.AList"
    "HOL-Library.Char_ord"
    "HOL-Library.List_Lexorder"
    "HOL-Library.Multiset"
begin

section \<open>SSDi-Calculator: the statistical engine\<close>

text \<open>
  A shallow embedding of \<^verbatim>\<open>SSDi-Calculator.py\<close>: the aggregation of input records
  (\<^verbatim>\<open>input_to_dict\<close>), the dimorphism index (\<^verbatim>\<open>ssdi_single\<close>), the pairwise
  estimator (\<^verbatim>\<open>ssdi_pairwise\<close>), the permutation test (\<^verbatim>\<open>run_permutations\<close>) and
  the per-species dispatch (\<^verbatim>\<open>run_ssdi_calculations\<close>).

  Conventions of the model.
  \<^item> A float is a value of \<open>pyfloat\<close>: a finite number, an infinity or \<^verbatim>\<open>nan\<close>.
    Comparison, negation, absolute value and truth value are exact on floats and are
    defined here. Every operation that rounds (division, subtraction,
    \<^verbatim>\<open>round\<close>, \<^verbatim>\<open>numpy.mean\<close>, \<^verbatim>\<open>numpy.percentile\<close>) and the t-test of scipy are
    fields of a record \<open>library\<close>, a parameter of every function: what is proved for
    every library holds for the one of Python.
  \<^item> \<open>exact_lib\<close> is the library that computes without rounding error. The closed
    theorems evaluate the program with it, on inputs where the doubles of Python give
    the same values.
  \<^item> Every exception that the program does not catch is a value \<open>Inl e\<close>.
  \<^item> Calls of \<^verbatim>\<open>logging\<close> are kept where they report on the data
    (\<^verbatim>\<open>input_to_dict\<close>); elsewhere they do not influence any result and are dropped.
\<close>

subsection \<open>Outcomes\<close>

datatype error =
    ValueError          \<comment> \<open>\<^verbatim>\<open>float(s)\<close> on a string that is not a number\<close>
  | StopIteration       \<comment> \<open>\<^verbatim>\<open>next(fh)\<close> on a file without any line\<close>
  | ZeroDivisionError   \<comment> \<open>\<^verbatim>\<open>x / 0.0\<close> on two Python floats\<close>
  | UnboundLocalError   \<comment> \<open>\<^verbatim>\<open>return ssdi\<close> when no branch assigned it\<close>

subsection \<open>Floats\<close>

text \<open>
  \<open>Fin x\<close> is the double of value \<open>x\<close>; the two zeros are the one value \<open>Fin 0\<close>
  (they are equal, and both are false as a truth value).
\<close>

datatype pyfloat = Fin real | PosInf | NegInf | NaN

text \<open>The comparisons \<^verbatim>\<open><\<close>, \<^verbatim>\<open>==\<close> and \<^verbatim>\<open><=\<close>: false whenever an argument is \<^verbatim>\<open>nan\<close>.\<close>

fun fl_lt :: "pyfloat \<Rightarrow> pyfloat \<Rightarrow> bool" where
  "fl_lt NaN y = False"
| "fl_lt x NaN = False"
| "fl_lt (Fin a) (Fin b) = (a < b)"
| "fl_lt (Fin a) PosInf = True"
| "fl_lt (Fin a) NegInf = False"
| "fl_lt PosInf y = False"
| "fl_lt NegInf NegInf = False"
| "fl_lt NegInf y = True"

definition fl_eq :: "pyfloat \<Rightarrow> pyfloat \<Rightarrow> bool" where
  "fl_eq x y \<longleftrightarrow> x = y \<and> x \<noteq> NaN"

definition fl_le :: "pyfloat \<Rightarrow> pyfloat \<Rightarrow> bool" where
  "fl_le x y \<longleftrightarrow> fl_lt x y \<or> fl_eq x y"

text \<open>\<^verbatim>\<open>-1 * x\<close> changes the sign and \<^verbatim>\<open>abs(x)\<close> clears it: no rounding.\<close>

fun fl_neg :: "pyfloat \<Rightarrow> pyfloat" where
  "fl_neg (Fin a) = Fin (- a)"
| "fl_neg PosInf = NegInf"
| "fl_neg NegInf = PosInf"
| "fl_neg NaN = NaN"

fun fl_abs :: "pyfloat \<Rightarrow> pyfloat" where
  "fl_abs (Fin a) = Fin \<bar>a\<bar>"
| "fl_abs PosInf = PosInf"
| "fl_abs NegInf = PosInf"
| "fl_abs NaN = NaN"

text \<open>The truth value of a float: false for zero only.\<close>

definition truthy :: "pyfloat \<Rightarrow> bool" where
  "truthy x \<longleftrightarrow> x \<noteq> Fin 0"

text \<open>The literal \<^verbatim>\<open>0.001\<close> is the double nearest to one thousandth.\<close>

definition lit_0_001 :: pyfloat where
  "lit_0_001 = Fin (1152921504606847 / 2 ^ 60)"

text \<open>
  The values that the program stores in a result: a float, or one of the strings
  \<^verbatim>\<open>"NA"\<close> and \<^verbatim>\<open>"<0.001"\<close>.
\<close>

datatype pyval = Str string | Num pyfloat

abbreviation NA :: pyval where
  "NA \<equiv> Str ''NA''"

subsection \<open>The library\<close>

text \<open>
  The operations of Python, numpy and scipy that the program calls and that round or
  approximate:
  \<^item> \<open>fdiv\<close>, \<open>fsub\<close>: division and subtraction of doubles. \<open>fdiv\<close> is the
    division of numpy, defined for a zero divisor too; on two Python floats the
    program raises \<^verbatim>\<open>ZeroDivisionError\<close> for a zero divisor before dividing.
  \<^item> \<open>py_round\<close>: \<^verbatim>\<open>round(x, n)\<close> on a Python float; \<open>np_round\<close>: \<^verbatim>\<open>round(x, n)\<close>
    on a \<^verbatim>\<open>numpy.float64\<close>.
  \<^item> \<open>np_mean\<close>: \<^verbatim>\<open>numpy.mean\<close> of a list; \<open>np_percentile\<close>:
    \<^verbatim>\<open>numpy.percentile(a, q)\<close>.
  \<^item> \<open>ttest_1samp\<close>: \<^verbatim>\<open>scipy.stats.ttest_1samp(vals, popmean)[1]\<close>, the two-sided
    p-value.
\<close>

record library =
  fdiv :: "pyfloat \<Rightarrow> pyfloat \<Rightarrow> pyfloat"
  fsub :: "pyfloat \<Rightarrow> pyfloat \<Rightarrow> pyfloat"
  py_round :: "pyfloat \<Rightarrow> nat \<Rightarrow> pyfloat"
  np_round :: "pyfloat \<Rightarrow> nat \<Rightarrow> pyfloat"
  np_mean :: "pyfloat list \<Rightarrow> pyfloat"
  np_percentile :: "pyfloat list \<Rightarrow> pyfloat \<Rightarrow> pyfloat"
  ttest_1samp :: "pyfloat list \<Rightarrow> pyfloat \<Rightarrow> pyfloat"


text \<open>
  \<^verbatim>\<open>list.sort()\<close> on floats: a stable insertion sort with \<^verbatim>\<open><\<close>. (With a \<^verbatim>\<open>nan\<close>
  in the list the order that Python leaves is not specified; the program uses the
  sorted list for a count and for \<^verbatim>\<open>numpy.percentile\<close>, which do not depend on the
  order.)
\<close>

fun insert_float :: "pyfloat \<Rightarrow> pyfloat list \<Rightarrow> pyfloat list" where
  "insert_float x [] = [x]"
| "insert_float x (y # ys) = (if fl_lt x y then x # y # ys else y # insert_float x ys)"

definition sort_floats :: "pyfloat list \<Rightarrow> pyfloat list" where
  "sort_floats xs = foldl (\<lambda>acc x. insert_float x acc) [] xs"

text \<open>
  The state of the module \<^verbatim>\<open>random\<close> is the sequence of the shuffles it is going to
  produce: the \<open>i\<close>-th coming call of \<^verbatim>\<open>random.sample(xs, len(xs))\<close> returns
  \<open>rs i xs\<close>. A call returns the head of the sequence and leaves its tail.
  A generator is well-formed (\<open>rearranges\<close>) when every draw is a rearrangement of the
  population.
\<close>

type_synonym rng = "nat \<Rightarrow> pyfloat list \<Rightarrow> pyfloat list"

definition random_sample :: "rng \<Rightarrow> pyfloat list \<Rightarrow> nat \<Rightarrow> pyfloat list \<times> rng" where
  "random_sample rs population k = (take k (rs 0 population), \<lambda>i. rs (Suc i))"


subsection \<open>The library without rounding error\<close>

text \<open>
  Arithmetic on \<open>pyfloat\<close> with the exact result for finite arguments (no overflow)
  and the rules of IEEE 754 for the infinities and \<^verbatim>\<open>nan\<close>. A zero divisor counts
  as the positive zero.
\<close>

fun x_add :: "pyfloat \<Rightarrow> pyfloat \<Rightarrow> pyfloat" where
  "x_add NaN y = NaN"
| "x_add x NaN = NaN"
| "x_add PosInf NegInf = NaN"
| "x_add NegInf PosInf = NaN"
| "x_add PosInf y = PosInf"
| "x_add x PosInf = PosInf"
| "x_add NegInf y = NegInf"
| "x_add x NegInf = NegInf"
| "x_add (Fin a) (Fin b) = Fin (a + b)"

definition x_sub :: "pyfloat \<Rightarrow> pyfloat \<Rightarrow> pyfloat" where
  "x_sub x y = x_add x (fl_neg y)"

text \<open>An infinity with the sign of a finite factor.\<close>

definition signed_inf :: "bool \<Rightarrow> real \<Rightarrow> pyfloat" where
  "signed_inf positive a =
     (if a = 0 then NaN else if (0 < a) = positive then PosInf else NegInf)"

fun x_mul :: "pyfloat \<Rightarrow> pyfloat \<Rightarrow> pyfloat" where
  "x_mul NaN y = NaN"
| "x_mul x NaN = NaN"
| "x_mul (Fin a) (Fin b) = Fin (a * b)"
| "x_mul PosInf (Fin b) = signed_inf True b"
| "x_mul NegInf (Fin b) = signed_inf False b"
| "x_mul (Fin a) PosInf = signed_inf True a"
| "x_mul (Fin a) NegInf = signed_inf False a"
| "x_mul PosInf PosInf = PosInf"
| "x_mul NegInf NegInf = PosInf"
| "x_mul PosInf NegInf = NegInf"
| "x_mul NegInf PosInf = NegInf"

fun x_div :: "pyfloat \<Rightarrow> pyfloat \<Rightarrow> pyfloat" where
  "x_div NaN y = NaN"
| "x_div x NaN = NaN"
| "x_div (Fin a) (Fin b) = (if b = 0 then signed_inf True a else Fin (a / b))"
| "x_div (Fin a) PosInf = Fin 0"
| "x_div (Fin a) NegInf = Fin 0"
| "x_div PosInf (Fin b) = (if 0 \<le> b then PosInf else NegInf)"
| "x_div NegInf (Fin b) = (if 0 \<le> b then NegInf else PosInf)"
| "x_div PosInf y = NaN"
| "x_div NegInf y = NaN"

text \<open>
  Rounding to \<open>n\<close> decimals: the multiple of \<open>10\<^sup>-\<^sup>n\<close> nearest to \<open>x\<close>, a tie going
  to the even multiple.
\<close>

definition round_half_even :: "real \<Rightarrow> int" where
  "round_half_even y =
     (let fl = \<lfloor>y\<rfloor>; d = y - of_int fl
      in if d < 1 / 2 then fl
         else if 1 / 2 < d then fl + 1
         else if even fl then fl else fl + 1)"

fun x_round :: "pyfloat \<Rightarrow> nat \<Rightarrow> pyfloat" where
  "x_round (Fin x) n = Fin (of_int (round_half_even (x * 10 ^ n)) / 10 ^ n)"
| "x_round PosInf n = PosInf"
| "x_round NegInf n = NegInf"
| "x_round NaN n = NaN"

text \<open>The mean of no number is \<^verbatim>\<open>nan\<close>.\<close>

definition x_mean :: "pyfloat list \<Rightarrow> pyfloat" where
  "x_mean xs =
     (if xs = [] then NaN else x_div (foldl x_add (Fin 0) xs) (Fin (real (length xs))))"

text \<open>
  The percentile by linear interpolation: on the sorted data \<open>s\<close> of length \<open>n\<close> the
  virtual index is \<open>(n - 1) * q / 100\<close>, and the result interpolates between the two
  neighbouring entries.
\<close>

definition x_percentile :: "pyfloat list \<Rightarrow> pyfloat \<Rightarrow> pyfloat" where
  "x_percentile a q =
     (case q of
        Fin qq \<Rightarrow>
          if a = [] \<or> NaN \<in> set a then NaN
          else
            let s = sort_floats a;
                h = real (length s - 1) * (qq / 100);
                j = nat \<lfloor>h\<rfloor>;
                g = h - real j
            in if j + 1 < length s
               then x_add (s ! j) (x_mul (x_sub (s ! (j + 1)) (s ! j)) (Fin g))
               else s ! (length s - 1)
      | _ \<Rightarrow> NaN)"

text \<open>
  The p-value of the t-test where it needs no t distribution: \<^verbatim>\<open>nan\<close> for a sample
  of fewer than two observations and for a sample without variance whose mean is the
  hypothesized one, and \<open>0\<close> for a sample without variance and another mean. For
  every other sample this instance has \<^verbatim>\<open>nan\<close>, and it is used on none.
\<close>

definition ttest_degenerate :: "pyfloat list \<Rightarrow> pyfloat \<Rightarrow> pyfloat" where
  "ttest_degenerate vals popmean =
     (if length vals < 2 then NaN
      else if \<forall>v\<in>set vals. v = hd vals
      then (case hd vals of
              Fin c \<Rightarrow> if Fin c = popmean then NaN else Fin 0
            | _ \<Rightarrow> NaN)
      else NaN)"

definition exact_lib :: library where
  "exact_lib =
     \<lparr>fdiv = x_div, fsub = x_sub, py_round = x_round, np_round = x_round,
      np_mean = x_mean, np_percentile = x_percentile, ttest_1samp = ttest_degenerate\<rparr>"

subsection \<open>Library functions on strings\<close>

text \<open>
  A character is a code point below 256. \<^verbatim>\<open>str.strip()\<close> removes the white space
  of \<^verbatim>\<open>str.isspace()\<close>, which in this range is: tab, line feed, vertical tab, form
  feed, carriage return, the four separators \<^verbatim>\<open>\x1c\<close> to \<^verbatim>\<open>\x1f\<close>, the space,
  \<^verbatim>\<open>\x85\<close> and \<^verbatim>\<open>\xa0\<close>.
\<close>

definition isspace :: "char \<Rightarrow> bool" where
  "isspace c = (c \<in> set [CHR '' '', CHR 0x09, CHR 0x0A, CHR 0x0B, CHR 0x0C, CHR 0x0D,
                          CHR 0x1C, CHR 0x1D, CHR 0x1E, CHR 0x1F, CHR 0x85, CHR 0xA0])"

definition str_strip :: "string \<Rightarrow> string" where
  "str_strip s = rev (dropWhile isspace (rev (dropWhile isspace s)))"

fun str_split :: "char \<Rightarrow> string \<Rightarrow> string list" where
  "str_split sep [] = [[]]"
| "str_split sep (c # cs) =
     (if c = sep then [] # str_split sep cs
      else (case str_split sep cs of
              w # ws \<Rightarrow> (c # w) # ws
            | [] \<Rightarrow> [[c]]))"

text \<open>\<^verbatim>\<open>str.upper()\<close> and \<^verbatim>\<open>str.lower()\<close> on the letters a to z.\<close>

definition char_upper :: "char \<Rightarrow> char" where
  "char_upper c =
     (case map_of (zip ''abcdefghijklmnopqrstuvwxyz'' ''ABCDEFGHIJKLMNOPQRSTUVWXYZ'') c of
        Some u \<Rightarrow> u
      | None \<Rightarrow> c)"

definition str_upper :: "string \<Rightarrow> string" where
  "str_upper s = map char_upper s"

definition char_lower :: "char \<Rightarrow> char" where
  "char_lower c =
     (case map_of (zip ''ABCDEFGHIJKLMNOPQRSTUVWXYZ'' ''abcdefghijklmnopqrstuvwxyz'') c of
        Some l \<Rightarrow> l
      | None \<Rightarrow> c)"

definition str_lower :: "string \<Rightarrow> string" where
  "str_lower s = map char_lower s"

text \<open>
  \<^verbatim>\<open>float(s)\<close> is a parameter of \<open>input_to_dict\<close>: a function from strings to
  \<open>pyfloat option\<close>, \<open>None\<close> when Python raises \<^verbatim>\<open>ValueError\<close>.

  \<open>py_float\<close> is \<^verbatim>\<open>float\<close> on the strings of one-byte characters, by the grammar of
  Python: between optional white space an optional sign and then \<^verbatim>\<open>inf\<close>,
  \<^verbatim>\<open>infinity\<close> or \<^verbatim>\<open>nan\<close> in any case, or a decimal literal
  \<^verbatim>\<open>(digitpart [. [digitpart]] | . digitpart) [(e|E) [sign] digitpart]\<close>, where a
  digitpart is a run of digits with single underscores between them. Its parameter
  \<open>nearest\<close> takes the value of the literal to the double nearest to it; with
  \<open>Fin\<close> for \<open>nearest\<close> the value is kept as it is, which is what Python does for a
  literal that is a double.
\<close>

type_synonym float_parser = "string \<Rightarrow> pyfloat option"

definition is_digit :: "char \<Rightarrow> bool" where
  "is_digit c = (c \<in> set ''0123456789'')"

definition digit_val :: "char \<Rightarrow> nat" where
  "digit_val c = of_char c - 48"

definition digits_val :: "string \<Rightarrow> nat" where
  "digits_val ds = foldl (\<lambda>a c. 10 * a + digit_val c) 0 ds"

text \<open>A separator of digits stands between two digits.\<close>

fun digitpart :: "string \<Rightarrow> bool" where
  "digitpart [] = False"
| "digitpart [c] = is_digit c"
| "digitpart (c # d # cs) =
     (is_digit c \<and> (if d = CHR ''_'' then cs \<noteq> [] \<and> is_digit (hd cs) \<and> digitpart cs
                    else digitpart (d # cs)))"

definition digitpart_val :: "string \<Rightarrow> nat" where
  "digitpart_val s = digits_val (filter is_digit s)"

definition digit_or_sep :: "char \<Rightarrow> bool" where
  "digit_or_sep c = (is_digit c \<or> c = CHR ''_'')"

definition parse_sign :: "string \<Rightarrow> bool \<times> string" where
  "parse_sign s =
     (case s of
        [] \<Rightarrow> (False, [])
      | c # cs \<Rightarrow>
          if c = CHR ''-'' then (True, cs)
          else if c = CHR ''+'' then (False, cs)
          else (False, s))"

definition parse_exponent :: "string \<Rightarrow> int option" where
  "parse_exponent s =
     (case s of
        [] \<Rightarrow> Some 0
      | c # cs \<Rightarrow>
          if c = CHR ''e'' \<or> c = CHR ''E'' then
            (let (neg, ds) = parse_sign cs
             in if digitpart ds
                then Some (if neg then - int (digitpart_val ds) else int (digitpart_val ds))
                else None)
          else None)"

definition parse_decimal :: "string \<Rightarrow> real option" where
  "parse_decimal u =
     (let ip = takeWhile digit_or_sep u;
          r1 = dropWhile digit_or_sep u;
          (fp, r2) =
            (case r1 of
               [] \<Rightarrow> ([], [])
             | c # cs \<Rightarrow>
                 if c = CHR ''.'' then (takeWhile digit_or_sep cs, dropWhile digit_or_sep cs)
                 else ([], r1))
      in if (ip = [] \<and> fp = []) \<or> (ip \<noteq> [] \<and> \<not> digitpart ip) \<or> (fp \<noteq> [] \<and> \<not> digitpart fp)
         then None
         else
           (case parse_exponent r2 of
              None \<Rightarrow> None
            | Some e \<Rightarrow>
                let mant = real (digitpart_val ip)
                           + real (digitpart_val fp) / 10 ^ length (filter is_digit fp)
                in Some (if 0 \<le> e then mant * 10 ^ nat e else mant / 10 ^ nat (- e))))"

definition py_float :: "(real \<Rightarrow> pyfloat) \<Rightarrow> float_parser" where
  "py_float nearest s =
     (let (neg, u) = parse_sign (str_strip s) in
      if str_lower u = ''inf'' \<or> str_lower u = ''infinity''
      then Some (if neg then NegInf else PosInf)
      else if str_lower u = ''nan'' then Some NaN
      else
        (case parse_decimal u of
           None \<Rightarrow> None
         | Some v \<Rightarrow> Some (nearest (if neg then - v else v))))"

subsection \<open>\<^verbatim>\<open>input_to_dict\<close>\<close>

text \<open>
  The value of a species in \<^verbatim>\<open>species_dict\<close> is the dictionary
  \<^verbatim>\<open>{"M": [...], "F": [...]}\<close>. The dictionary of the species is an association list
  in insertion order, with one entry for a key.
\<close>

record cohort =
  sizes_M :: "pyfloat list"
  sizes_F :: "pyfloat list"

type_synonym species_dict = "(string \<times> cohort) list"

datatype fileformat = Tab | Csv

definition separator :: "fileformat \<Rightarrow> char" where
  "separator ff = (case ff of Tab \<Rightarrow> CHR 0x09 | Csv \<Rightarrow> CHR '','')"

text \<open>
  The records of the log that report on the data: the three calls of
  \<^verbatim>\<open>logging.debug\<close> (lines 110, 127 and 135; the message of line 127 has one
  placeholder and shows the species only) and the species count of line 137.
\<close>

datatype event =
    Bad_line string
  | Skipping_entry_new string
  | Skipping_entry string string pyfloat
  | Found_data nat

definition append_M :: "string \<Rightarrow> pyfloat \<Rightarrow> species_dict \<Rightarrow> species_dict" where
  "append_M species sz d =
     AList.map_entry species (\<lambda>v. v\<lparr>sizes_M := sizes_M v @ [sz]\<rparr>) d"

definition append_F :: "string \<Rightarrow> pyfloat \<Rightarrow> species_dict \<Rightarrow> species_dict" where
  "append_F species sz d =
     AList.map_entry species (\<lambda>v. v\<lparr>sizes_F := sizes_F v @ [sz]\<rparr>) d"

text \<open>The columns of a line (lines 103 to 106).\<close>

definition columns :: "fileformat \<Rightarrow> string \<Rightarrow> string list" where
  "columns ff line = str_split (separator ff) (str_strip line)"

text \<open>The body of the loop over the lines (lines 100 to 135).\<close>

definition process_line ::
  "float_parser \<Rightarrow> fileformat \<Rightarrow> string \<Rightarrow> species_dict \<times> event list
     \<Rightarrow> error + (species_dict \<times> event list)" where
  "process_line to_float ff line st =
     (let (d, evs) = st in
      if str_strip line = [] then Inr (d, evs)
      else
        let cols = columns ff line in
        if length cols < 3 then Inr (d, evs @ [Bad_line line])
        else
          (case to_float (cols ! 2) of
             None \<Rightarrow> Inl ValueError
           | Some sz \<Rightarrow>
               let species = cols ! 0; sex = str_upper (cols ! 1) in
               if map_of d species = None then
                 let d' = d @ [(species, \<lparr>sizes_M = [], sizes_F = []\<rparr>)] in
                 if sex = ''M'' then Inr (append_M species sz d', evs)
                 else if sex = ''F'' then Inr (append_F species sz d', evs)
                 else Inr (d', evs @ [Skipping_entry_new species])
               else
                 if sex = ''M'' then Inr (append_M species sz d, evs)
                 else if sex = ''F'' then Inr (append_F species sz d, evs)
                 else Inr (d, evs @ [Skipping_entry species sex sz])))"

fun read_lines ::
  "float_parser \<Rightarrow> fileformat \<Rightarrow> string list \<Rightarrow> species_dict \<times> event list
     \<Rightarrow> error + (species_dict \<times> event list)" where
  "read_lines to_float ff [] st = Inr st"
| "read_lines to_float ff (line # rest) st =
     (case process_line to_float ff line st of
        Inl e \<Rightarrow> Inl e
      | Inr st' \<Rightarrow> read_lines to_float ff rest st')"

text \<open>
  The file is the list of its lines; the first one is the header, which
  \<^verbatim>\<open>next(fh)\<close> skips. The function returns the dictionary and the log.
\<close>

definition input_to_dict ::
  "float_parser \<Rightarrow> fileformat \<Rightarrow> string list \<Rightarrow> error + (species_dict \<times> event list)" where
  "input_to_dict to_float ff lines =
     (case lines of
        [] \<Rightarrow> Inl StopIteration
      | header # rest \<Rightarrow>
          (case read_lines to_float ff rest ([], []) of
             Inl e \<Rightarrow> Inl e
           | Inr (d, evs) \<Rightarrow> Inr (d, evs @ [Found_data (length d)])))"

text \<open>
  A line is a record of a species when it is not blank, has three columns or more, and
  names the species in its first column: the lines that reach line 114 with this
  species.
\<close>

definition record_of :: "fileformat \<Rightarrow> string \<Rightarrow> string \<Rightarrow> bool" where
  "record_of ff species line \<longleftrightarrow>
     str_strip line \<noteq> [] \<and> 3 \<le> length (columns ff line) \<and> columns ff line ! 0 = species"

subsection \<open>\<^verbatim>\<open>ssdi_single\<close>\<close>

text \<open>
  The flag \<open>numpy\<close> is the type of the arguments: true where one of them is a
  \<^verbatim>\<open>numpy.float64\<close> (the rounded means of lines 199, 212 and 225), false where both
  are Python floats (line 192 and \<^verbatim>\<open>ssdi_pairwise\<close>). With a \<^verbatim>\<open>numpy.float64\<close>
  the division is the one of numpy, which raises nothing, and the result is rounded
  as a \<^verbatim>\<open>numpy.float64\<close>.
\<close>

definition ssdi_single :: "library \<Rightarrow> bool \<Rightarrow> pyfloat \<Rightarrow> pyfloat \<Rightarrow> error + pyfloat" where
  "ssdi_single lib numpy f m =
     (let rnd = (if numpy then np_round lib else py_round lib) in
      if fl_lt f m then
        (if \<not> numpy \<and> f = Fin 0 then Inl ZeroDivisionError
         else Inr (rnd (fl_neg (fsub lib (fdiv lib m f) (Fin 1))) 3))
      else if fl_lt m f then
        (if \<not> numpy \<and> m = Fin 0 then Inl ZeroDivisionError
         else Inr (rnd (fsub lib (fdiv lib f m) (Fin 1)) 3))
      else if fl_eq f m then Inr (Fin 0)
      else Inl UnboundLocalError)"





subsection \<open>\<^verbatim>\<open>ssdi_pairwise\<close>\<close>

text \<open>The inner and the outer loop that fill \<^verbatim>\<open>vals\<close> (lines 291 to 295).\<close>

fun pairs_of_female ::
  "library \<Rightarrow> pyfloat \<Rightarrow> pyfloat list \<Rightarrow> pyfloat list \<Rightarrow> error + pyfloat list" where
  "pairs_of_female lib f [] vals = Inr vals"
| "pairs_of_female lib f (m # males) vals =
     (case ssdi_single lib False f m of
        Inl e \<Rightarrow> Inl e
      | Inr s \<Rightarrow> pairs_of_female lib f males (vals @ [s]))"

fun pairwise_vals ::
  "library \<Rightarrow> pyfloat list \<Rightarrow> pyfloat list \<Rightarrow> pyfloat list \<Rightarrow> error + pyfloat list" where
  "pairwise_vals lib [] males vals = Inr vals"
| "pairwise_vals lib (f # females) males vals =
     (case pairs_of_female lib f males vals of
        Inl e \<Rightarrow> Inl e
      | Inr vals' \<Rightarrow> pairwise_vals lib females males vals')"

text \<open>
  The readable p-value of the t-test (lines 309 to 312); \<^verbatim>\<open>results[1]\<close> is a
  \<^verbatim>\<open>numpy.float64\<close>.
\<close>

definition readable_p :: "library \<Rightarrow> pyfloat \<Rightarrow> pyval" where
  "readable_p lib p =
     (if fl_le p lit_0_001 then Str ''<0.001'' else Num (np_round lib p 3))"

definition ssdi_pairwise ::
  "library \<Rightarrow> pyfloat list \<Rightarrow> pyfloat list \<Rightarrow> bool \<Rightarrow> error + (pyfloat \<times> pyval)" where
  "ssdi_pairwise lib females males ttest =
     (case pairwise_vals lib females males [] of
        Inl e \<Rightarrow> Inl e
      | Inr vals \<Rightarrow>
          let avg_ssdi = np_round lib (np_mean lib vals) 3;
              p = (if \<not> ttest then NA else readable_p lib (ttest_1samp lib vals (Fin 0)))
          in Inr (avg_ssdi, p))"

subsection \<open>\<^verbatim>\<open>run_permutations\<close>\<close>

text \<open>
  The loop \<^verbatim>\<open>for i in range(0, 10000)\<close>, with the number of the iterations that
  remain, the generator, and the list \<^verbatim>\<open>permuted_ssdi_vals\<close> built so far.
\<close>

fun permutation_loop ::
  "library \<Rightarrow> nat \<Rightarrow> rng \<Rightarrow> pyfloat list \<Rightarrow> nat \<Rightarrow> pyfloat list
     \<Rightarrow> error + (pyfloat list \<times> rng)" where
  "permutation_loop lib 0 rs allsizes nf permuted_ssdi_vals = Inr (permuted_ssdi_vals, rs)"
| "permutation_loop lib (Suc k) rs allsizes nf permuted_ssdi_vals =
     (let (randomized, rs') = random_sample rs allsizes (length allsizes);
          newf = take nf randomized;
          newm = drop nf randomized
      in case ssdi_pairwise lib newf newm False of
           Inl e \<Rightarrow> Inl e
         | Inr (perm_avg_ssdi, p) \<Rightarrow>
             permutation_loop lib k rs' allsizes nf (permuted_ssdi_vals @ [perm_avg_ssdi]))"

text \<open>
  The two-tailed p-value (line 359): the count and the length are integers, which
  \<^verbatim>\<open>float\<close> and the addition of \<open>1\<close> keep exact; the division and the rounding are
  the ones of Python floats.
\<close>

definition two_tailed :: "library \<Rightarrow> pyfloat list \<Rightarrow> pyfloat \<Rightarrow> pyfloat" where
  "two_tailed lib permuted_ssdi_vals emp_ssdi =
     py_round lib
       (fdiv lib
          (Fin (real (length [x \<leftarrow> permuted_ssdi_vals. fl_lt (fl_abs emp_ssdi) (fl_abs x)]) + 1))
          (Fin (real (length permuted_ssdi_vals) + 1))) 5"

definition run_permutations ::
  "library \<Rightarrow> rng \<Rightarrow> pyfloat list \<Rightarrow> pyfloat list \<Rightarrow> pyfloat
     \<Rightarrow> error + ((pyfloat \<times> pyfloat \<times> pyval) \<times> rng)" where
  "run_permutations lib rs females males emp_ssdi =
     (let allsizes = females @ males in
      case permutation_loop lib 10000 rs allsizes (length females) [] of
        Inl e \<Rightarrow> Inl e
      | Inr (vals, rs') \<Rightarrow>
          let permuted_ssdi_vals = sort_floats vals;
              lo = np_round lib (np_percentile lib permuted_ssdi_vals (Fin 2.5)) 3;
              hi = np_round lib (np_percentile lib permuted_ssdi_vals (Fin 97.5)) 3;
              ptwotail = two_tailed lib permuted_ssdi_vals emp_ssdi;
              p = (if fl_le ptwotail lit_0_001 then Str ''<0.001''
                   else Num (py_round lib ptwotail 3))
          in Inr ((lo, hi, p), rs'))"


subsection \<open>\<^verbatim>\<open>run_ssdi_calculations\<close>\<close>

text \<open>
  The values that one branch of the dispatch assigns: \<^verbatim>\<open>ssdi\<close> and, in this order,
  \<^verbatim>\<open>avg_ssdi, p_pair, low, high, p_perm, diff, avgf, avgm\<close>.
\<close>

type_synonym assigned =
  "pyfloat \<times> pyval \<times> pyval \<times> pyval \<times> pyval \<times> pyval \<times> pyval \<times> pyval \<times> pyval"

text \<open>
  The three branches that run the tests share their middle part (lines 202 to 207,
  215 to 220 and 228 to 233): the pairwise estimate with its t-test, the permutation
  test on the pairwise estimate, and the absolute difference.
\<close>

definition pairwise_and_permutations ::
  "library \<Rightarrow> rng \<Rightarrow> cohort \<Rightarrow> pyfloat \<Rightarrow> pyval \<Rightarrow> pyval
     \<Rightarrow> error + (assigned option \<times> rng)" where
  "pairwise_and_permutations lib rs v s af am =
     (case ssdi_pairwise lib (sizes_F v) (sizes_M v) True of
        Inl e \<Rightarrow> Inl e
      | Inr (avg, p_pair_v) \<Rightarrow>
          (case run_permutations lib rs (sizes_F v) (sizes_M v) avg of
             Inl e \<Rightarrow> Inl e
           | Inr ((lo, hi, p_perm_v), rs') \<Rightarrow>
               Inr (Some (s, Num avg, p_pair_v, Num lo, Num hi, p_perm_v,
                          Num (fl_abs (fsub lib s avg)), af, am), rs')))"

text \<open>
  The dispatch on the two sample sizes (lines 190 to 240). The last branch leaves
  \<^verbatim>\<open>ssdi = None\<close>: the result is \<open>None\<close>.
\<close>

definition species_calculations ::
  "library \<Rightarrow> rng \<Rightarrow> cohort \<Rightarrow> error + (assigned option \<times> rng)" where
  "species_calculations lib rs v =
     (let fs = sizes_F v; ms = sizes_M v in
      if length fs = 1 \<and> length ms = 1 then
        (case ssdi_single lib False (fs ! 0) (ms ! 0) of
           Inl e \<Rightarrow> Inl e
         | Inr s \<Rightarrow> Inr (Some (s, NA, NA, NA, NA, NA, NA, NA, NA), rs))
      else if length fs > 1 \<and> length ms = 1 then
        (case ssdi_single lib True (np_round lib (np_mean lib fs) 1) (ms ! 0) of
           Inl e \<Rightarrow> Inl e
         | Inr s \<Rightarrow>
             pairwise_and_permutations lib rs v s (Num (np_round lib (np_mean lib fs) 1)) NA)
      else if length fs = 1 \<and> length ms > 1 then
        (case ssdi_single lib True (fs ! 0) (np_round lib (np_mean lib ms) 1) of
           Inl e \<Rightarrow> Inl e
         | Inr s \<Rightarrow>
             pairwise_and_permutations lib rs v s NA (Num (np_round lib (np_mean lib ms) 1)))
      else if length fs > 1 \<and> length ms > 1 then
        (case ssdi_single lib True (np_round lib (np_mean lib fs) 1)
                                   (np_round lib (np_mean lib ms) 1) of
           Inl e \<Rightarrow> Inl e
         | Inr s \<Rightarrow>
             pairwise_and_permutations lib rs v s
               (Num (np_round lib (np_mean lib fs) 1)) (Num (np_round lib (np_mean lib ms) 1)))
      else Inr (None, rs))"

text \<open>The value of a species in \<^verbatim>\<open>calc_dict\<close> (lines 245 to 248).\<close>

record result =
  males :: nat
  females :: nat
  ssdi :: pyfloat
  avg_ssdi :: pyval
  p_pair :: pyval
  low :: pyval
  high :: pyval
  p_perm :: pyval
  diff :: pyval
  avgf :: pyval
  avgm :: pyval

type_synonym calc_dict = "(string \<times> result) list"

text \<open>
  \<^verbatim>\<open>if ssdi:\<close> (line 243) is the truth value of \<^verbatim>\<open>ssdi\<close>: false for \<^verbatim>\<open>None\<close> and
  for the float zero.
\<close>

definition store_result :: "string \<Rightarrow> cohort \<Rightarrow> assigned option \<Rightarrow> calc_dict \<Rightarrow> calc_dict" where
  "store_result k v res calc =
     (case res of
        None \<Rightarrow> calc
      | Some (s, a, pp, lo, hi, pm, df, af, am) \<Rightarrow>
          if truthy s then
            AList.update k
              \<lparr>males = length (sizes_M v), females = length (sizes_F v),
               ssdi = s, avg_ssdi = a, p_pair = pp, low = lo, high = hi,
               p_perm = pm, diff = df, avgf = af, avgm = am\<rparr> calc
          else calc)"

fun calculation_loop ::
  "library \<Rightarrow> (string \<times> cohort) list \<Rightarrow> calc_dict \<times> rng \<Rightarrow> error + (calc_dict \<times> rng)" where
  "calculation_loop lib [] st = Inr st"
| "calculation_loop lib ((k, v) # rest) st =
     (case species_calculations lib (snd st) v of
        Inl e \<Rightarrow> Inl e
      | Inr (res, rs') \<Rightarrow> calculation_loop lib rest (store_result k v res (fst st), rs'))"

definition run_ssdi_calculations ::
  "library \<Rightarrow> rng \<Rightarrow> species_dict \<Rightarrow> error + (calc_dict \<times> rng)" where
  "run_ssdi_calculations lib rs d = calculation_loop lib (sort_key fst d) ([], rs)"

section \<open>Properties\<close>

subsection \<open>Floats\<close>

lemma fl_le_Fin [simp]: "fl_le (Fin a) (Fin b) \<longleftrightarrow> a \<le> b"
  by (auto simp: fl_le_def fl_eq_def)

lemma fl_le_PosInf [simp]: "fl_le (Fin a) PosInf" "fl_le PosInf PosInf"
  by (simp_all add: fl_le_def fl_eq_def)

lemma fl_le_NegInf [simp]: "fl_le NegInf (Fin a)" "fl_le NegInf NegInf"
  by (simp_all add: fl_le_def fl_eq_def)



subsection \<open>Rounding without error\<close>











subsection \<open>The dimorphism index\<close>







subsection \<open>The pairwise estimator\<close>





lemma ssdi_pairwise_of_vals:
  assumes "pairwise_vals lib fs ms [] = Inr vals"
  shows "ssdi_pairwise lib fs ms ttest =
           Inr (np_round lib (np_mean lib vals) 3,
                if \<not> ttest then NA else readable_p lib (ttest_1samp lib vals (Fin 0)))"
  using assms by (simp add: ssdi_pairwise_def)





text \<open>
  Claim C8, as stated, asks for the p-value \<^verbatim>\<open>"NA"\<close> when the t-test is requested on
  a sample without variance. For the single pair of the sizes \<open>10\<close> and \<open>8\<close> the
  t-test has one observation and reports \<^verbatim>\<open>nan\<close>; \<open>ssdi_pairwise\<close> returns this
  \<^verbatim>\<open>nan\<close>, which is not \<^verbatim>\<open>"NA"\<close>.
\<close>

theorem ssdi_pairwise_ttest_counterexample:
  "ssdi_pairwise exact_lib [Fin 10] [Fin 8] True = Inr (Fin (1 / 4), Num NaN) \<and> Num NaN \<noteq> NA"
  by (simp add: ssdi_pairwise_def ssdi_single_def exact_lib_def x_sub_def x_mean_def
      round_half_even_def readable_p_def ttest_degenerate_def lit_0_001_def fl_le_def fl_eq_def)

text \<open>
  Claim C8, amended. For every sequence of pairwise values, with or without variance,
  \<open>ssdi_pairwise\<close> with the t-test requested returns, and the p-value it returns is
  never \<^verbatim>\<open>"NA"\<close>: it is \<^verbatim>\<open>"<0.001"\<close> when the p-value of the t-test is at most
  \<open>0.001\<close>, and otherwise what \<^verbatim>\<open>round\<close> makes of that p-value with 3 decimals,
  also when the t-test reports \<^verbatim>\<open>nan\<close>.
\<close>

theorem ssdi_pairwise_ttest_p_value:
  assumes "pairwise_vals lib fs ms [] = Inr vals"
  shows "\<exists>p. ssdi_pairwise lib fs ms True = Inr (np_round lib (np_mean lib vals) 3, p) \<and>
           p = (if fl_le (ttest_1samp lib vals (Fin 0)) lit_0_001 then Str ''<0.001''
                else Num (np_round lib (ttest_1samp lib vals (Fin 0)) 3)) \<and>
           p \<noteq> NA"
  using ssdi_pairwise_of_vals [OF assms, of True] by (simp add: readable_p_def)

theorem ssdi_pairwise_ttest_p_value_witness:
  "pairwise_vals exact_lib [Fin 10, Fin 10] [Fin 8] [] = Inr [Fin (1 / 4), Fin (1 / 4)] \<and>
   ttest_1samp exact_lib [Fin (1 / 4), Fin (1 / 4)] (Fin 0) = Fin 0 \<and>
   ssdi_pairwise exact_lib [Fin 10, Fin 10] [Fin 8] True = Inr (Fin (1 / 4), Str ''<0.001'')"
proof -
  have v: "pairwise_vals exact_lib [Fin 10, Fin 10] [Fin 8] [] = Inr [Fin (1 / 4), Fin (1 / 4)]"
    by (simp add: ssdi_single_def exact_lib_def x_sub_def round_half_even_def)
  have t: "ttest_1samp exact_lib [Fin (1 / 4), Fin (1 / 4)] (Fin 0) = Fin 0"
    by (simp add: exact_lib_def ttest_degenerate_def)
  have m: "np_round exact_lib (np_mean exact_lib [Fin (1 / 4), Fin (1 / 4)]) 3 = Fin (1 / 4)"
    by (simp add: exact_lib_def x_mean_def round_half_even_def)
  from ssdi_pairwise_ttest_p_value [OF v] v t m show ?thesis
    by (simp add: lit_0_001_def)
qed

subsection \<open>The permutation test\<close>



















subsection \<open>The dispatch over the species\<close>

lemma map_of_store_result_other:
  "k' \<noteq> k \<Longrightarrow> map_of (store_result k' v res calc) k = map_of calc k"
  by (auto simp: store_result_def update_conv' split: option.splits prod.splits)

lemma map_of_store_result_same:
  "map_of (store_result k v res calc) k =
     (case map_of (store_result k v res []) k of Some r \<Rightarrow> Some r | None \<Rightarrow> map_of calc k)"
  by (auto simp: store_result_def update_conv' split: option.splits prod.splits)

lemma calculation_loop_other:
  "k \<notin> fst ` set items \<Longrightarrow> calculation_loop lib items (calc, rs) = Inr (calc', rs') \<Longrightarrow>
   map_of calc' k = map_of calc k"
proof (induction items arbitrary: calc rs)
  case Nil
  then show ?case by simp
next
  case (Cons item items)
  obtain k' v where item: "item = (k', v)" by (cases item)
  with Cons.prems(1) have ne: "k' \<noteq> k" and notin: "k \<notin> fst ` set items" by auto
  from Cons.prems(2) item obtain res rs1 where
    step: "species_calculations lib rs v = Inr (res, rs1)" and
    rest: "calculation_loop lib items (store_result k' v res calc, rs1) = Inr (calc', rs')"
    by (auto split: sum.splits)
  from Cons.IH [OF notin rest] ne show ?case
    by (simp add: map_of_store_result_other)
qed

lemma calculation_loop_lookup:
  "distinct (map fst items) \<Longrightarrow> (k, v) \<in> set items \<Longrightarrow>
   calculation_loop lib items (calc, rs) = Inr (calc', rs') \<Longrightarrow>
   \<exists>rs0 res rs1.
     species_calculations lib rs0 v = Inr (res, rs1) \<and>
     map_of calc' k =
       (case map_of (store_result k v res []) k of Some r \<Rightarrow> Some r | None \<Rightarrow> map_of calc k)"
proof (induction items arbitrary: calc rs)
  case Nil
  then show ?case by simp
next
  case (Cons item items)
  obtain k' v' where item: "item = (k', v')" by (cases item)
  from Cons.prems(3) item obtain res rs1 where
    step: "species_calculations lib rs v' = Inr (res, rs1)" and
    rest: "calculation_loop lib items (store_result k' v' res calc, rs1) = Inr (calc', rs')"
    by (auto split: sum.splits)
  show ?case
  proof (cases "(k, v) = item")
    case True
    with item have kv: "k' = k" "v' = v" by simp_all
    from Cons.prems(1) item kv have "k \<notin> fst ` set items" by simp
    from calculation_loop_other [OF this rest]
    have "map_of calc' k = map_of (store_result k v res calc) k" by (simp add: kv)
    with step kv show ?thesis
      by (metis map_of_store_result_same)
  next
    case False
    with Cons.prems(2) have mem: "(k, v) \<in> set items" by simp
    with Cons.prems(1) item have ne: "k' \<noteq> k" by force
    from Cons.prems(1) have "distinct (map fst items)" by simp
    from Cons.IH [OF this mem rest] obtain rs0 res0 rs2 where
      a: "species_calculations lib rs0 v = Inr (res0, rs2)" and
      b: "map_of calc' k =
            (case map_of (store_result k v res0 []) k of
               Some r \<Rightarrow> Some r
             | None \<Rightarrow> map_of (store_result k' v' res calc) k)"
      by blast
    from b have "map_of calc' k =
            (case map_of (store_result k v res0 []) k of
               Some r \<Rightarrow> Some r
             | None \<Rightarrow> map_of calc k)"
      unfolding map_of_store_result_other [OF ne] .
    with a show ?thesis by blast
  qed
qed

lemma run_ssdi_calculations_lookup:
  assumes "distinct (map fst d)" and "(k, v) \<in> set d"
    and "run_ssdi_calculations lib rs d = Inr (calc, rs')"
  shows "\<exists>rs0 res rs1.
           species_calculations lib rs0 v = Inr (res, rs1) \<and>
           map_of calc k = map_of (store_result k v res []) k"
proof -
  have "distinct (map fst (sort_key fst d))"
    using assms(1) by (metis distinct_map distinct_sort set_sort)
  moreover have "(k, v) \<in> set (sort_key fst d)" using assms(2) by simp
  moreover have "calculation_loop lib (sort_key fst d) ([], rs) = Inr (calc, rs')"
    using assms(3) by (simp add: run_ssdi_calculations_def)
  ultimately obtain rs0 res rs1 where
    a: "species_calculations lib rs0 v = Inr (res, rs1)" and
    b: "map_of calc k =
       (case map_of (store_result k v res []) k of Some r \<Rightarrow> Some r | None \<Rightarrow> map_of [] k)"
    using calculation_loop_lookup by blast
  from b have "map_of calc k = map_of (store_result k v res []) k"
    by (simp split: option.splits)
  with a show ?thesis by blast
qed

lemma species_calculations_missing:
  "sizes_F v = [] \<or> sizes_M v = [] \<Longrightarrow> species_calculations lib rs v = Inr (None, rs)"
  by (auto simp: species_calculations_def Let_def)

lemma run_ssdi_calculations_missing:
  assumes "distinct (map fst d)" and "(k, v) \<in> set d"
    and "sizes_F v = [] \<or> sizes_M v = []"
    and "run_ssdi_calculations lib rs d = Inr (calc, rs')"
  shows "map_of calc k = None"
proof -
  from run_ssdi_calculations_lookup [OF assms(1,2,4)] obtain rs0 res rs1 where
    "species_calculations lib rs0 v = Inr (res, rs1)"
    "map_of calc k = map_of (store_result k v res []) k" by blast
  with species_calculations_missing [OF assms(3), of lib rs0] show ?thesis
    by (simp add: store_result_def)
qed





text \<open>The definitions that evaluate \<open>input_to_dict\<close> on a given file.\<close>

lemmas eval_simps =
  Let_def input_to_dict_def process_line_def columns_def separator_def
  py_float_def parse_decimal_def parse_sign_def parse_exponent_def
  str_strip_def isspace_def is_digit_def digit_or_sep_def digits_val_def digitpart_val_def
  digit_val_def str_upper_def char_upper_def str_lower_def char_lower_def
  append_M_def append_F_def


text \<open>
  Claim C2 asks for a result of every species with at least one female and one male.
  The program means to drop the species without data (\<^verbatim>\<open>ssdi = None\<close>, line 239, and
  the comment of line 242) but tests the truth value of \<^verbatim>\<open>ssdi\<close> (line 243), which
  is false for the index \<open>0.0\<close> too: the species Fox with one male and one female of
  size \<open>10.0\<close> has no result.
\<close>

theorem equal_sizes_species_dropped:
  "input_to_dict (py_float Fin) Csv [''Species,Sex,Size'', ''Fox,M,10.0'', ''Fox,F,10.0''] =
     Inr ([(''Fox'', \<lparr>sizes_M = [Fin 10], sizes_F = [Fin 10]\<rparr>)], [Found_data 1]) \<and>
   run_ssdi_calculations exact_lib (\<lambda>i xs. rev xs)
     [(''Fox'', \<lparr>sizes_M = [Fin 10], sizes_F = [Fin 10]\<rparr>)] = Inr ([], \<lambda>i xs. rev xs)"
proof
  show "input_to_dict (py_float Fin) Csv [''Species,Sex,Size'', ''Fox,M,10.0'', ''Fox,F,10.0''] =
     Inr ([(''Fox'', \<lparr>sizes_M = [Fin 10], sizes_F = [Fin 10]\<rparr>)], [Found_data 1])"
    by (simp add: eval_simps)
  show "run_ssdi_calculations exact_lib (\<lambda>i xs. rev xs)
     [(''Fox'', \<lparr>sizes_M = [Fin 10], sizes_F = [Fin 10]\<rparr>)] = Inr ([], \<lambda>i xs. rev xs)"
    by (simp add: run_ssdi_calculations_def species_calculations_def ssdi_single_def
        fl_eq_def store_result_def truthy_def)
qed

subsection \<open>The aggregation of the records\<close>

lemma process_line_unparseable:
  assumes "str_strip line \<noteq> []" and "3 \<le> length (columns ff line)"
    and "to_float (columns ff line ! 2) = None"
  shows "process_line to_float ff line st = Inl ValueError"
  using assms by (cases st) (simp add: process_line_def Let_def)

lemma process_line_error:
  "process_line to_float ff line st = Inl e \<Longrightarrow> e = ValueError"
  by (cases st) (auto simp: process_line_def Let_def split: if_splits option.splits)

lemma read_lines_error:
  "read_lines to_float ff ls st = Inl e \<Longrightarrow> e = ValueError"
  by (induction ls arbitrary: st) (auto split: sum.splits dest: process_line_error)

lemma read_lines_unparseable:
  assumes "line \<in> set ls" and "str_strip line \<noteq> []" and "3 \<le> length (columns ff line)"
    and "to_float (columns ff line ! 2) = None"
  shows "read_lines to_float ff ls st = Inl ValueError"
  using assms(1)
proof (induction ls arbitrary: st)
  case Nil
  then show ?case by simp
next
  case (Cons l ls)
  show ?case
  proof (cases "process_line to_float ff l st")
    case (Inl e)
    with process_line_error [OF Inl] show ?thesis by simp
  next
    case (Inr st')
    have "l \<noteq> line"
      using Inr process_line_unparseable [of line ff to_float st, OF assms(2,3,4)] by auto
    with Cons.prems have "line \<in> set ls" by simp
    from Cons.IH [OF this] Inr show ?thesis by simp
  qed
qed

lemma map_fst_map_entry: "map fst (AList.map_entry k f xs) = map fst xs"
  by (induction xs) auto

lemma process_line_keys:
  assumes "distinct (map fst d)" and "process_line to_float ff line (d, evs) = Inr (d', evs')"
  shows "distinct (map fst d')"
proof -
  have new: "distinct (map fst (d @ [(k, v)]))" if "map_of d k = None" for k and v :: cohort
    using that assms(1) by (auto simp: map_of_eq_None_iff)
  from assms show ?thesis
    by (auto simp: process_line_def Let_def append_M_def append_F_def map_fst_map_entry new
        simp del: distinct_append map_append
        split: if_splits option.splits)
qed

lemma process_line_other:
  assumes "\<not> record_of ff s line" and "process_line to_float ff line (d, evs) = Inr (d', evs')"
  shows "map_of d' s = map_of d s"
proof -
  have new: "map_of (d @ [(k, v)]) s = map_of d s" if "k \<noteq> s" for k and v :: cohort
    using that by (simp add: map_add_def split: option.splits)
  from assms show ?thesis
    by (auto simp: process_line_def Let_def record_of_def append_M_def append_F_def
        map_of_map_entry new
        simp del: map_of_append
        split: if_splits option.splits)
qed

lemma process_line_unrecognized:
  assumes "record_of ff s line"
    and "str_upper (columns ff line ! 1) \<noteq> ''M''" and "str_upper (columns ff line ! 1) \<noteq> ''F''"
    and "process_line to_float ff line (d, evs) = Inr (d', evs')"
  shows "map_of d' s =
           Some (case map_of d s of None \<Rightarrow> \<lparr>sizes_M = [], sizes_F = []\<rparr> | Some v \<Rightarrow> v)"
proof -
  have new: "map_of (d @ [(k, v)]) k = Some v" if "map_of d k = None" for k and v :: cohort
    using that by (simp add: map_add_def)
  from assms show ?thesis
    by (auto simp: process_line_def Let_def record_of_def new
        simp del: map_of_append
        split: if_splits option.splits)
qed

lemma read_lines_keys:
  "distinct (map fst d) \<Longrightarrow> read_lines to_float ff ls (d, evs) = Inr (d', evs') \<Longrightarrow>
   distinct (map fst d')"
proof (induction ls arbitrary: d evs)
  case Nil
  then show ?case by simp
next
  case (Cons l ls)
  from Cons.prems(2) obtain d1 evs1 where
    step: "process_line to_float ff l (d, evs) = Inr (d1, evs1)" and
    rest: "read_lines to_float ff ls (d1, evs1) = Inr (d', evs')"
    by (auto split: sum.splits)
  from process_line_keys [OF Cons.prems(1) step] have "distinct (map fst d1)" .
  from Cons.IH [OF this rest] show ?case .
qed

lemma read_lines_unrecognized:
  assumes bad: "\<forall>l\<in>set ls. record_of ff s l \<longrightarrow>
                  str_upper (columns ff l ! 1) \<noteq> ''M'' \<and> str_upper (columns ff l ! 1) \<noteq> ''F''"
  shows "read_lines to_float ff ls (d, evs) = Inr (d', evs') \<Longrightarrow>
         map_of d' s =
           (if \<exists>l\<in>set ls. record_of ff s l
            then Some (case map_of d s of None \<Rightarrow> \<lparr>sizes_M = [], sizes_F = []\<rparr> | Some v \<Rightarrow> v)
            else map_of d s)"
  using bad
proof (induction ls arbitrary: d evs)
  case Nil
  then show ?case by simp
next
  case (Cons l ls)
  from Cons.prems(1) obtain d1 evs1 where
    step: "process_line to_float ff l (d, evs) = Inr (d1, evs1)" and
    rest: "read_lines to_float ff ls (d1, evs1) = Inr (d', evs')"
    by (auto split: sum.splits)
  from Cons.prems(2) have bad': "\<forall>l\<in>set ls. record_of ff s l \<longrightarrow>
       str_upper (columns ff l ! 1) \<noteq> ''M'' \<and> str_upper (columns ff l ! 1) \<noteq> ''F''"
    by simp
  note ih = Cons.IH [OF rest bad']
  show ?case
  proof (cases "record_of ff s l")
    case True
    with Cons.prems(2) have "str_upper (columns ff l ! 1) \<noteq> ''M''"
      "str_upper (columns ff l ! 1) \<noteq> ''F''" by simp_all
    from process_line_unrecognized [OF True this step]
    have "map_of d1 s =
        Some (case map_of d s of None \<Rightarrow> \<lparr>sizes_M = [], sizes_F = []\<rparr> | Some v \<Rightarrow> v)" .
    with ih True show ?thesis by simp
  next
    case False
    from process_line_other [OF False step] have "map_of d1 s = map_of d s" .
    with ih False show ?thesis by simp
  qed
qed

text \<open>
  Claim C1, as stated, has the record with an unparseable size skipped and reported,
  and the remaining records processed. The size is parsed by \<^verbatim>\<open>float(cols[2])\<close>
  (line 114) outside any \<^verbatim>\<open>try\<close>: on the file with the record \<^verbatim>\<open>Fox,M,abc\<close>
  the function raises \<^verbatim>\<open>ValueError\<close> and returns no dictionary.
\<close>

theorem unparseable_size_counterexample:
  "input_to_dict (py_float Fin) Csv [''Species,Sex,Size'', ''Fox,M,abc'', ''Fox,F,12.0''] =
     Inl ValueError"
  by (simp add: eval_simps)

text \<open>
  Claim C1, amended. For every input with a record of three columns or more whose size
  column is not parseable as a float, \<open>input_to_dict\<close> raises \<^verbatim>\<open>ValueError\<close>: it
  returns no dictionary, whatever the other records are.
\<close>

theorem unparseable_size_raises:
  assumes "line \<in> set rest" and "str_strip line \<noteq> []"
    and "3 \<le> length (columns ff line)" and "to_float (columns ff line ! 2) = None"
  shows "input_to_dict to_float ff (header # rest) = Inl ValueError"
  using read_lines_unparseable [of line rest ff to_float "([], [])", OF assms]
  by (simp add: input_to_dict_def)

theorem unparseable_size_raises_witness:
  "columns Csv ''Fox,M,abc'' = [''Fox'', ''M'', ''abc''] \<and> py_float Fin ''abc'' = None \<and>
   input_to_dict (py_float Fin) Csv
     [''Species,Sex,Size'', ''Fox,F,12.0'', ''Fox,M,abc'', ''Fox,M,10.0'']
     = Inl ValueError"
proof -
  have c: "columns Csv ''Fox,M,abc'' = [''Fox'', ''M'', ''abc'']"
    by (simp add: columns_def separator_def str_strip_def isspace_def)
  have p: "py_float Fin ''abc'' = None"
    by (simp add: eval_simps)
  have "''Fox,M,abc'' \<in> set [''Fox,F,12.0'', ''Fox,M,abc'', ''Fox,M,10.0'']"
    "str_strip ''Fox,M,abc'' \<noteq> []" "3 \<le> length (columns Csv ''Fox,M,abc'')"
    "py_float Fin (columns Csv ''Fox,M,abc'' ! 2) = None"
    by (simp_all add: c p) (simp add: str_strip_def isspace_def)
  from unparseable_size_raises
    [of "''Fox,M,abc''" _ Csv "py_float Fin" "''Species,Sex,Size''", OF this]
    c p show ?thesis by simp
qed

text \<open>
  Claim C10, as stated, gives a species whose first record has an unrecognized sex an
  entry with two empty lists in the output, and no result. A later record of the
  species with a recognized sex is appended to the entry (lines 130 to 133): after
  \<^verbatim>\<open>Fox,X,1.0\<close> the records \<^verbatim>\<open>Fox,M,2.0\<close> and \<^verbatim>\<open>Fox,F,3.0\<close> fill both lists,
  and the species has a result.
\<close>

theorem unrecognized_sex_species_counterexample:
  "input_to_dict (py_float Fin) Csv
     [''Species,Sex,Size'', ''Fox,X,1.0'', ''Fox,M,2.0'', ''Fox,F,3.0''] =
     Inr ([(''Fox'', \<lparr>sizes_M = [Fin 2], sizes_F = [Fin 3]\<rparr>)],
          [Skipping_entry_new ''Fox'', Found_data 1]) \<and>
   run_ssdi_calculations exact_lib (\<lambda>i xs. rev xs)
     [(''Fox'', \<lparr>sizes_M = [Fin 2], sizes_F = [Fin 3]\<rparr>)] =
     Inr ([(''Fox'', \<lparr>males = 1, females = 1, ssdi = Fin (1 / 2), avg_ssdi = NA, p_pair = NA,
                     low = NA, high = NA, p_perm = NA, diff = NA, avgf = NA, avgm = NA\<rparr>)],
          \<lambda>i xs. rev xs)"
proof
  show "input_to_dict (py_float Fin) Csv
     [''Species,Sex,Size'', ''Fox,X,1.0'', ''Fox,M,2.0'', ''Fox,F,3.0''] =
     Inr ([(''Fox'', \<lparr>sizes_M = [Fin 2], sizes_F = [Fin 3]\<rparr>)],
          [Skipping_entry_new ''Fox'', Found_data 1])"
    by (simp add: eval_simps)
  show "run_ssdi_calculations exact_lib (\<lambda>i xs. rev xs)
     [(''Fox'', \<lparr>sizes_M = [Fin 2], sizes_F = [Fin 3]\<rparr>)] =
     Inr ([(''Fox'', \<lparr>males = 1, females = 1, ssdi = Fin (1 / 2), avg_ssdi = NA, p_pair = NA,
                     low = NA, high = NA, p_perm = NA, diff = NA, avgf = NA, avgm = NA\<rparr>)],
          \<lambda>i xs. rev xs)"
    by (simp add: run_ssdi_calculations_def species_calculations_def ssdi_single_def
        exact_lib_def x_sub_def round_half_even_def store_result_def truthy_def)
qed

text \<open>
  Claim C10, amended. For every input that is read without an error and in which a
  species has a record and every record of the species has an unrecognized sex token,
  the dictionary returned has an entry for the species with both size lists empty; the
  species is one of the keys, which are distinct and whose number is the reported
  total; and \<open>run_ssdi_calculations\<close> produces no result for the species.
\<close>

theorem unrecognized_sex_species:
  assumes run: "input_to_dict to_float ff (header # rest) = Inr (d, evs)"
    and seen: "line \<in> set rest" "record_of ff s line"
    and bad: "\<forall>l\<in>set rest. record_of ff s l \<longrightarrow>
                str_upper (columns ff l ! 1) \<noteq> ''M'' \<and> str_upper (columns ff l ! 1) \<noteq> ''F''"
  shows "map_of d s = Some \<lparr>sizes_M = [], sizes_F = []\<rparr> \<and>
         distinct (map fst d) \<and> s \<in> set (map fst d) \<and>
         last evs = Found_data (length (map fst d)) \<and>
         (\<forall>lib rs calc rs'. run_ssdi_calculations lib rs d = Inr (calc, rs') \<longrightarrow>
                             map_of calc s = None)"
proof -
  from run obtain evs0 where
    rd: "read_lines to_float ff rest ([], []) = Inr (d, evs0)" and
    evs: "evs = evs0 @ [Found_data (length d)]"
    by (auto simp: input_to_dict_def split: sum.splits)
  from read_lines_unrecognized [of rest ff s to_float "[]" "[]" d evs0, OF bad rd] seen
  have entry: "map_of d s = Some \<lparr>sizes_M = [], sizes_F = []\<rparr>" by auto
  from read_lines_keys [of "[]" to_float ff rest "[]" d evs0, OF _ rd]
  have dist: "distinct (map fst d)" by simp
  from entry have mem: "(s, \<lparr>sizes_M = [], sizes_F = []\<rparr>) \<in> set d"
    by (rule map_of_SomeD)
  then have key: "s \<in> set (map fst d)" by force
  have none: "map_of calc s = None"
    if "run_ssdi_calculations lib rs d = Inr (calc, rs')" for lib rs calc rs'
    using run_ssdi_calculations_missing [OF dist mem _ that] by simp
  from entry dist key evs none show ?thesis by simp
qed

theorem unrecognized_sex_species_witness:
  "\<exists>d evs.
     input_to_dict (py_float Fin) Csv
       [''Species,Sex,Size'', ''Fox,X,1.0'', ''Cat,M,2.0'', ''Fox,?,3'']
       = Inr (d, evs) \<and>
     map_of d ''Fox'' = Some \<lparr>sizes_M = [], sizes_F = []\<rparr> \<and>
     length d = 2 \<and> last evs = Found_data 2 \<and>
     run_ssdi_calculations exact_lib (\<lambda>i xs. rev xs) d = Inr ([], \<lambda>i xs. rev xs) \<and>
     map_of ([] :: calc_dict) ''Fox'' = None"
proof -
  let ?rest = "[''Fox,X,1.0'', ''Cat,M,2.0'', ''Fox,?,3'']"
  let ?d = "[(''Fox'', \<lparr>sizes_M = [], sizes_F = []\<rparr>),
             (''Cat'', \<lparr>sizes_M = [Fin 2], sizes_F = []\<rparr>)]"
  let ?evs = "[Skipping_entry_new ''Fox'', Skipping_entry ''Fox'' ''?'' (Fin 3), Found_data 2]"
  have run: "input_to_dict (py_float Fin) Csv (''Species,Sex,Size'' # ?rest) = Inr (?d, ?evs)"
    by (simp add: eval_simps)
  have seen: "''Fox,X,1.0'' \<in> set ?rest" "record_of Csv ''Fox'' ''Fox,X,1.0''"
    by (simp_all add: record_of_def columns_def separator_def str_strip_def isspace_def)
  have bad: "\<forall>l\<in>set ?rest. record_of Csv ''Fox'' l \<longrightarrow>
                str_upper (columns Csv l ! 1) \<noteq> ''M'' \<and> str_upper (columns Csv l ! 1) \<noteq> ''F''"
    by (simp add: record_of_def columns_def separator_def str_strip_def isspace_def
        str_upper_def char_upper_def)
  have calc: "run_ssdi_calculations exact_lib (\<lambda>i xs. rev xs) ?d = Inr ([], \<lambda>i xs. rev xs)"
    by (simp add: run_ssdi_calculations_def species_calculations_def store_result_def)
  from unrecognized_sex_species
    [of "py_float Fin" Csv _ ?rest ?d ?evs _ "''Fox''", OF run seen bad]
  have "map_of ?d ''Fox'' = Some \<lparr>sizes_M = [], sizes_F = []\<rparr>"
    "last ?evs = Found_data (length (map fst ?d))"
    "run_ssdi_calculations exact_lib (\<lambda>i xs. rev xs) ?d = Inr ([], \<lambda>i xs. rev xs) \<longrightarrow>
       map_of ([] :: calc_dict) ''Fox'' = None"
    by blast+
  with run calc show ?thesis by simp
qed

end
